theory Spec2Isabelle
  imports Complex_Main
begin

section \<open>JavaScript values\<close>

text \<open>
  The eligibility service (\<^verbatim>\<open>eligibilityService.js\<close>) works on plain JavaScript values:
  the passage features and the rule values of the requirement table are booleans, numbers,
  strings, \<^verbatim>\<open>null\<close>, \<^verbatim>\<open>undefined\<close> or arrays of these. Reading a property of a plain
  object can also give a member of \<^verbatim>\<open>Object.prototype\<close>: one of its built-in functions,
  known by its name, or the prototype object itself.

  A JavaScript number is an IEEE-754 double: \<^verbatim>\<open>NaN\<close>, an infinity, or a finite value, which
  is a rational number. Comparing two doubles is comparing the rationals they denote
  (\<^verbatim>\<open>-0\<close> and \<^verbatim>\<open>+0\<close> are equal under \<^verbatim>\<open>===\<close> and \<^verbatim>\<open><\<close> and print alike, so one zero
  is enough here).
\<close>

datatype jsnum = NaN | NegInf | Fin rat | PosInf

datatype jsval =
    JUndefined
  | JNull
  | JBool bool
  | JNum jsnum
  | JStr string
  | JArr "jsval list"
  | JFunction string
  | JObject

text \<open>
  Two conversions of the language round to the nearest double and print the shortest
  decimal that reads back: \<^verbatim>\<open>Number(s)\<close> on a string and \<^verbatim>\<open>String(n)\<close> on a number. They
  are parameters of the model; every theorem below holds for all of them.
\<close>

record js_conv =
  StringToNumber :: "string \<Rightarrow> jsnum"
  NumberToString :: "jsnum \<Rightarrow> string"

text \<open>\<^verbatim>\<open>Array.prototype.join(',')\<close> on already converted elements.\<close>

fun join_comma :: "string list \<Rightarrow> string" where
  "join_comma [] = []"
| "join_comma [s] = s"
| "join_comma (s # t # ts) = s @ '','' @ join_comma (t # ts)"

text \<open>
  \<^verbatim>\<open>String(v)\<close>. An array prints its elements separated by commas, \<^verbatim>\<open>null\<close> and
  \<^verbatim>\<open>undefined\<close> elements as the empty string. A built-in function prints as
  \<^verbatim>\<open>function name() { [native code] }\<close> and the prototype object as \<^verbatim>\<open>[object Object]\<close>.
\<close>

fun js_String :: "js_conv \<Rightarrow> jsval \<Rightarrow> string" where
  "js_String c JUndefined = ''undefined''"
| "js_String c JNull = ''null''"
| "js_String c (JBool b) = (if b then ''true'' else ''false'')"
| "js_String c (JNum n) = NumberToString c n"
| "js_String c (JStr s) = s"
| "js_String c (JArr xs) =
     join_comma (map (\<lambda>x. if x = JUndefined \<or> x = JNull then [] else js_String c x) xs)"
| "js_String c (JFunction name) = ''function '' @ name @ ''() { [native code] }''"
| "js_String c JObject = ''[object Object]''"

text \<open>\<^verbatim>\<open>Number(v)\<close>; an array, a function and an object are converted through their string.\<close>

fun js_Number :: "js_conv \<Rightarrow> jsval \<Rightarrow> jsnum" where
  "js_Number c JUndefined = NaN"
| "js_Number c JNull = Fin 0"
| "js_Number c (JBool b) = (if b then Fin 1 else Fin 0)"
| "js_Number c (JNum n) = n"
| "js_Number c (JStr s) = StringToNumber c s"
| "js_Number c (JArr xs) = StringToNumber c (js_String c (JArr xs))"
| "js_Number c (JFunction name) = StringToNumber c (js_String c (JFunction name))"
| "js_Number c JObject = StringToNumber c (js_String c JObject)"

definition isNaN :: "jsnum \<Rightarrow> bool" where
  "isNaN n = (n = NaN)"

text \<open>
  Strings are byte strings here; \<^verbatim>\<open>toLowerCase\<close> and \<^verbatim>\<open>trim\<close> are modelled on ASCII
  (letters \<^verbatim>\<open>A\<close> to \<^verbatim>\<open>Z\<close>; tab, line feed, vertical tab, form feed, carriage return and
  space), other bytes are left alone.
\<close>

definition lower_char :: "char \<Rightarrow> char" where
  "lower_char ch =
     (if (65::nat) \<le> of_char ch \<and> of_char ch \<le> (90::nat)
      then char_of (of_char ch + (32::nat)) else ch)"

definition toLowerCase :: "string \<Rightarrow> string" where
  "toLowerCase s = map lower_char s"

definition is_space :: "char \<Rightarrow> bool" where
  "is_space ch = (of_char ch \<in> {9::nat, 10, 11, 12, 13, 32})"

definition trim :: "string \<Rightarrow> string" where
  "trim s = rev (dropWhile is_space (rev (dropWhile is_space s)))"

text \<open>\<^verbatim>\<open>s.split(',')\<close>: the pieces between commas; the empty string gives one empty piece.\<close>

fun split_comma :: "string \<Rightarrow> string list" where
  "split_comma [] = [[]]"
| "split_comma (ch # cs) =
     (if ch = CHR '','' then [] # split_comma cs
      else (case split_comma cs of
              [] \<Rightarrow> [[ch]]
            | w # ws \<Rightarrow> (ch # w) # ws))"

text \<open>
  \<^verbatim>\<open>a === b\<close>. \<^verbatim>\<open>NaN\<close> differs from itself. Two arrays, functions or objects are equal
  only when they are the same object; the values compared below come out of
  \<^verbatim>\<open>normalizeValue\<close>, which returns none of these.
\<close>

fun strict_eq :: "jsval \<Rightarrow> jsval \<Rightarrow> bool" where
  "strict_eq JUndefined JUndefined = True"
| "strict_eq JNull JNull = True"
| "strict_eq (JBool a) (JBool b) = (a = b)"
| "strict_eq (JNum a) (JNum b) = (a \<noteq> NaN \<and> b \<noteq> NaN \<and> a = b)"
| "strict_eq (JStr a) (JStr b) = (a = b)"
| "strict_eq _ _ = False"

text \<open>
  The relational comparison behind \<^verbatim>\<open><\<close>, \<^verbatim>\<open>>\<close>, \<^verbatim>\<open><=\<close> and \<^verbatim>\<open>>=\<close>: it answers
  true, false or undefined (\<open>None\<close>, when a side is \<^verbatim>\<open>NaN\<close>). Two strings compare by
  code units; otherwise both sides become numbers.
\<close>

fun num_less :: "jsnum \<Rightarrow> jsnum \<Rightarrow> bool option" where
  "num_less NaN _ = None"
| "num_less _ NaN = None"
| "num_less NegInf NegInf = Some False"
| "num_less NegInf _ = Some True"
| "num_less _ NegInf = Some False"
| "num_less PosInf _ = Some False"
| "num_less _ PosInf = Some True"
| "num_less (Fin a) (Fin b) = Some (a < b)"

fun str_less :: "string \<Rightarrow> string \<Rightarrow> bool" where
  "str_less [] [] = False"
| "str_less [] (y # ys) = True"
| "str_less (x # xs) [] = False"
| "str_less (x # xs) (y # ys) =
     (if x = y then str_less xs ys else (of_char x :: nat) < of_char y)"

definition toPrimitive :: "js_conv \<Rightarrow> jsval \<Rightarrow> jsval" where
  "toPrimitive c v =
     (case v of
        JArr xs \<Rightarrow> JStr (js_String c v)
      | JFunction name \<Rightarrow> JStr (js_String c v)
      | JObject \<Rightarrow> JStr (js_String c v)
      | _ \<Rightarrow> v)"

definition js_less :: "js_conv \<Rightarrow> jsval \<Rightarrow> jsval \<Rightarrow> bool option" where
  "js_less c a b =
     (case (toPrimitive c a, toPrimitive c b) of
        (JStr s, JStr t) \<Rightarrow> Some (str_less s t)
      | (pa, pb) \<Rightarrow> num_less (js_Number c pa) (js_Number c pb))"

definition js_lt :: "js_conv \<Rightarrow> jsval \<Rightarrow> jsval \<Rightarrow> bool" where
  "js_lt c a b = (js_less c a b = Some True)"

definition js_gt :: "js_conv \<Rightarrow> jsval \<Rightarrow> jsval \<Rightarrow> bool" where
  "js_gt c a b = (js_less c b a = Some True)"

definition js_le :: "js_conv \<Rightarrow> jsval \<Rightarrow> jsval \<Rightarrow> bool" where
  "js_le c a b = (js_less c b a = Some False)"

definition js_ge :: "js_conv \<Rightarrow> jsval \<Rightarrow> jsval \<Rightarrow> bool" where
  "js_ge c a b = (js_less c a b = Some False)"

section \<open>The condition evaluator\<close>

text \<open>
  \<^verbatim>\<open>normalizeValue\<close>: booleans and numbers pass; anything else is printed, lower-cased
  and trimmed, then read as a boolean token, as a number, or kept as that string.
\<close>

definition normalizeValue :: "js_conv \<Rightarrow> jsval \<Rightarrow> jsval" where
  "normalizeValue c v =
     (case v of
        JBool b \<Rightarrow> v
      | JNum n \<Rightarrow> v
      | _ \<Rightarrow>
          (let strValue = trim (toLowerCase (js_String c v)) in
           if strValue = ''true'' \<or> strValue = ''y'' \<or> strValue = ''yes'' then JBool True
           else if strValue = ''false'' \<or> strValue = ''n'' \<or> strValue = ''no'' then JBool False
           else
             (let numValue = js_Number c v in
              if \<not> isNaN numValue \<and> strValue \<noteq> '''' then JNum numValue
              else JStr strValue)))"

text \<open>
  \<^verbatim>\<open>xs.includes(s)\<close> for a string \<open>s\<close>: some element is that string.
\<close>

definition js_includes :: "jsval list \<Rightarrow> string \<Rightarrow> bool" where
  "js_includes xs s = (JStr s \<in> set xs)"

text \<open>
  Plain objects. An object literal is a map from its own keys to values, and its prototype
  is \<^verbatim>\<open>Object.prototype\<close>, whose members are eleven built-in functions and the accessor
  \<^verbatim>\<open>__proto__\<close>, which reads as the prototype object. The read \<^verbatim>\<open>obj[key]\<close> gives the own
  value when the key is an own key, else the member of the prototype of that name, else
  \<^verbatim>\<open>undefined\<close>.
\<close>

definition objectPrototype :: "string \<rightharpoonup> jsval" where
  "objectPrototype =
     map_of
       [(''constructor'', JFunction ''Object''),
        (''toString'', JFunction ''toString''),
        (''toLocaleString'', JFunction ''toLocaleString''),
        (''valueOf'', JFunction ''valueOf''),
        (''hasOwnProperty'', JFunction ''hasOwnProperty''),
        (''isPrototypeOf'', JFunction ''isPrototypeOf''),
        (''propertyIsEnumerable'', JFunction ''propertyIsEnumerable''),
        (''__defineGetter__'', JFunction ''__defineGetter__''),
        (''__defineSetter__'', JFunction ''__defineSetter__''),
        (''__lookupGetter__'', JFunction ''__lookupGetter__''),
        (''__lookupSetter__'', JFunction ''__lookupSetter__''),
        (''__proto__'', JObject)]"

definition getProperty :: "(string \<rightharpoonup> jsval) \<Rightarrow> string \<Rightarrow> jsval" where
  "getProperty obj key =
     (case obj key of
        Some v \<Rightarrow> v
      | None \<Rightarrow> (case objectPrototype key of Some v \<Rightarrow> v | None \<Rightarrow> JUndefined))"

text \<open>
  \<^verbatim>\<open>evaluateCondition(features, feature, operator, value)\<close>. The record of features is a
  plain object, read by \<^verbatim>\<open>features[feature]\<close>. The warning
  logged on an unknown operator is output only and has no place in the result. For
  \<^verbatim>\<open>in\<close> and \<^verbatim>\<open>not_in\<close> the rule value is a list when it is an array, else its
  printed form split at commas with each piece trimmed.
\<close>

definition evaluateCondition ::
  "js_conv \<Rightarrow> (string \<rightharpoonup> jsval) \<Rightarrow> string \<Rightarrow> string \<Rightarrow> jsval \<Rightarrow> bool" where
  "evaluateCondition c features feature operator val =
     (let featureValue = getProperty features feature in
      if featureValue = JUndefined \<or> featureValue = JNull then False
      else
        (let normalizedValue = normalizeValue c val;
             normalizedFeature = normalizeValue c featureValue in
         if operator = ''='' \<or> operator = ''=='' then strict_eq normalizedFeature normalizedValue
         else if operator = ''!='' \<or> operator = ''<>'' then \<not> strict_eq normalizedFeature normalizedValue
         else if operator = ''>'' then js_gt c normalizedFeature normalizedValue
         else if operator = ''<'' then js_lt c normalizedFeature normalizedValue
         else if operator = ''>='' then js_ge c normalizedFeature normalizedValue
         else if operator = ''<='' then js_le c normalizedFeature normalizedValue
         else if operator = ''in'' then
           (let allowedValues =
                  (case normalizedValue of
                     JArr xs \<Rightarrow> xs
                   | _ \<Rightarrow> map (\<lambda>v. JStr (trim v)) (split_comma (js_String c normalizedValue)))
            in js_includes allowedValues (js_String c normalizedFeature))
         else if operator = ''not_in'' then
           (let disallowedValues =
                  (case normalizedValue of
                     JArr xs \<Rightarrow> xs
                   | _ \<Rightarrow> map (\<lambda>v. JStr (trim v)) (split_comma (js_String c normalizedValue)))
            in \<not> js_includes disallowedValues (js_String c normalizedFeature))
         else True))"

text \<open>
  Conversions under which no string reads as a number. They agree with the language on
  \<^verbatim>\<open>NaN\<close> and on every string that is not a numeric literal, and serve to run the
  definitions on inputs where no other string is read and no other number is printed.
\<close>

definition nan_conv :: js_conv where
  "nan_conv = \<lparr>StringToNumber = (\<lambda>s. NaN), NumberToString = (\<lambda>n. ''NaN'')\<rparr>"

section \<open>The policy catalog\<close>

text \<open>
  A catalog entry carries \<^verbatim>\<open>type_id\<close>, \<^verbatim>\<open>name\<close>, \<^verbatim>\<open>priority\<close>, \<^verbatim>\<open>category\<close> and
  \<^verbatim>\<open>description\<close>; the service reads \<^verbatim>\<open>type_id\<close> and \<^verbatim>\<open>priority\<close> only, and the two
  display texts are left out. The id is a string and the priority an integer, as the
  loader's \<^verbatim>\<open>parseInt\<close> gives for every numeric cell (a priority that is \<^verbatim>\<open>NaN\<close> is
  not modelled). A requirement is a row \<^verbatim>\<open>{type_id, feature, operator, value}\<close> of the
  rule table.
\<close>

record question_type =
  type_id :: string
  priority :: int
  category :: string

record requirement =
  req_type_id :: string
  feature :: string
  operator :: string
  req_value :: jsval

text \<open>
  The loaded workbook. A sheet that is not there is \<open>None\<close>; so is a workbook that is
  \<^verbatim>\<open>null\<close>.
\<close>

record excel_data =
  questionTypes :: "question_type list option"
  typeRequirements :: "requirement list option"

definition getDefaultQuestionTypes :: "question_type list" where
  "getDefaultQuestionTypes =
    [\<lparr>type_id = ''R_MAIN'', priority = 1, category = ''MAIN''\<rparr>,
     \<lparr>type_id = ''R_DETAIL'', priority = 2, category = ''DETAIL''\<rparr>,
     \<lparr>type_id = ''R_DETAIL_SPECIFIC'', priority = 3, category = ''DETAIL''\<rparr>,
     \<lparr>type_id = ''R_INFER_REF'', priority = 4, category = ''INFER''\<rparr>,
     \<lparr>type_id = ''R_INFER_SUMMARY'', priority = 5, category = ''INFER''\<rparr>,
     \<lparr>type_id = ''R_INFER_BLANK'', priority = 6, category = ''INFER''\<rparr>,
     \<lparr>type_id = ''R_INFER_MEANING'', priority = 7, category = ''INFER''\<rparr>,
     \<lparr>type_id = ''R_GRAMMAR_USAGE'', priority = 8, category = ''GRAMMAR''\<rparr>,
     \<lparr>type_id = ''R_GRAMMAR_ERROR'', priority = 9, category = ''GRAMMAR''\<rparr>,
     \<lparr>type_id = ''R_VOCAB_SYN'', priority = 10, category = ''VOCAB''\<rparr>,
     \<lparr>type_id = ''R_VOCAB_ANT'', priority = 11, category = ''VOCAB''\<rparr>,
     \<lparr>type_id = ''R_VOCAB_DEF'', priority = 12, category = ''VOCAB''\<rparr>,
     \<lparr>type_id = ''R_VOCAB_CONTEXT'', priority = 13, category = ''VOCAB''\<rparr>,
     \<lparr>type_id = ''R_FLOW_IRRELEVANT'', priority = 14, category = ''FLOW''\<rparr>,
     \<lparr>type_id = ''R_FLOW_SENTENCE'', priority = 15, category = ''FLOW''\<rparr>,
     \<lparr>type_id = ''R_FLOW_PARAGRAPH'', priority = 16, category = ''FLOW''\<rparr>,
     \<lparr>type_id = ''R_FLOW_INSERT'', priority = 17, category = ''FLOW''\<rparr>]"

definition getQuestionTypes :: "excel_data option \<Rightarrow> question_type list" where
  "getQuestionTypes excelData =
     (case excelData of
        None \<Rightarrow> getDefaultQuestionTypes
      | Some d \<Rightarrow>
          (case questionTypes d of
             None \<Rightarrow> getDefaultQuestionTypes
           | Some qs \<Rightarrow> qs))"

definition getTypeRequirements :: "excel_data option \<Rightarrow> string \<Rightarrow> requirement list" where
  "getTypeRequirements excelData typeId =
     (case excelData of
        None \<Rightarrow> []
      | Some d \<Rightarrow>
          (case typeRequirements d of
             None \<Rightarrow> []
           | Some rs \<Rightarrow> filter (\<lambda>r. req_type_id r = typeId) rs))"

section \<open>First filter: eligibility\<close>

text \<open>
  The write \<^verbatim>\<open>obj[key] = b\<close> of a boolean into a plain object makes \<open>key\<close> an own key
  holding \<open>b\<close>, for every key but \<^verbatim>\<open>__proto__\<close>: that name is the accessor of
  \<^verbatim>\<open>Object.prototype\<close>, whose setter drops a value that is neither an object nor
  \<^verbatim>\<open>null\<close> and stores nothing.
\<close>

definition setProperty :: "(string \<rightharpoonup> bool) \<Rightarrow> string \<Rightarrow> bool \<Rightarrow> (string \<rightharpoonup> bool)" where
  "setProperty obj key b = (if key = ''__proto__'' then obj else obj(key \<mapsto> b))"

text \<open>
  \<^verbatim>\<open>calculateEligibility\<close> walks the catalog and writes one boolean per \<^verbatim>\<open>type_id\<close> into
  a plain object that starts empty; a later entry with the same id overwrites an earlier
  one. The result is given by its own keys. \<^verbatim>\<open>requirements.every(...)\<close> is \<open>list_all\<close>.
\<close>

definition calculateEligibility ::
  "js_conv \<Rightarrow> excel_data option \<Rightarrow> (string \<rightharpoonup> jsval) \<Rightarrow> (string \<rightharpoonup> bool)" where
  "calculateEligibility c excelData textFeatures =
     fold (\<lambda>t eligibility.
             (let typeId = type_id t;
                  requirements = getTypeRequirements excelData typeId in
              if length requirements = 0 then setProperty eligibility typeId True
              else
                (let isEligible =
                       list_all (\<lambda>req. evaluateCondition c textFeatures (feature req)
                                         (operator req) (req_value req)) requirements
                 in setProperty eligibility typeId isEligible)))
          (getQuestionTypes excelData) Map.empty"

section \<open>Second filter: the final type list\<close>

text \<open>
  The eligibility map holds booleans, as \<^verbatim>\<open>calculateEligibility\<close> writes them. It is
  read as a condition: \<^verbatim>\<open>eligibility[id]\<close> holds when the id is a key of the map whose
  value is \<^verbatim>\<open>true\<close>.
\<close>

definition truthy :: "bool option \<Rightarrow> bool" where
  "truthy v = (v = Some True)"

definition startsWith :: "string \<Rightarrow> string \<Rightarrow> bool" where
  "startsWith s p = (take (length p) s = p)"

text \<open>
  The options object; \<^verbatim>\<open>const { maxTypes = 5 } = options\<close> puts 5 where the property is
  missing and keeps any value that is there.
\<close>

record options =
  maxTypes :: "int option"

definition maxTypesOf :: "options \<Rightarrow> int" where
  "maxTypesOf opts = (case maxTypes opts of None \<Rightarrow> 5 | Some n \<Rightarrow> n)"

text \<open>
  A \<^verbatim>\<open>Set\<close> keeps its members in the order they were first added: a list without
  repetition, \<^verbatim>\<open>add\<close> appending what is new.
\<close>

definition set_add :: "string list \<Rightarrow> string \<Rightarrow> string list" where
  "set_add finalTypeSet x = (if x \<in> set finalTypeSet then finalTypeSet else finalTypeSet @ [x])"

text \<open>Step 3, the loop over \<^verbatim>\<open>basicTypes\<close>.\<close>

fun addBasicTypes :: "(string \<rightharpoonup> bool) \<Rightarrow> string list \<Rightarrow> string list \<Rightarrow> string list" where
  "addBasicTypes eligibility [] finalTypeSet = finalTypeSet"
| "addBasicTypes eligibility (basicTypeId # rest) finalTypeSet =
     (if truthy (eligibility basicTypeId)
      then addBasicTypes eligibility rest (set_add finalTypeSet basicTypeId)
      else addBasicTypes eligibility rest finalTypeSet)"

text \<open>Step 4, the loop over \<^verbatim>\<open>sortedTypes\<close>, left at the \<^verbatim>\<open>break\<close>.\<close>

fun addSortedTypes :: "int \<Rightarrow> question_type list \<Rightarrow> string list \<Rightarrow> string list" where
  "addSortedTypes maxT [] finalTypeSet = finalTypeSet"
| "addSortedTypes maxT (t # rest) finalTypeSet =
     (if int (length finalTypeSet) \<ge> maxT then finalTypeSet
      else addSortedTypes maxT rest (set_add finalTypeSet (type_id t)))"

text \<open>
  \<^verbatim>\<open>new Map(questionTypes.map(t => [t.type_id, t]))\<close>: of two entries with one id the
  later stays.
\<close>

definition typeMap :: "question_type list \<Rightarrow> (string \<rightharpoonup> question_type)" where
  "typeMap qs = fold (\<lambda>t m. m(type_id t \<mapsto> t)) qs Map.empty"

text \<open>
  The key of the last sort, \<^verbatim>\<open>typeA?.priority || 99\<close>: 99 for an id the map does not
  have, and 99 also for a priority that is 0, since \<^verbatim>\<open>||\<close> passes over 0.
\<close>

definition sortPriority :: "(string \<rightharpoonup> question_type) \<Rightarrow> string \<Rightarrow> int" where
  "sortPriority m a =
     (case m a of
        None \<Rightarrow> 99
      | Some t \<Rightarrow> if priority t = 0 then 99 else priority t)"

text \<open>
  \<^verbatim>\<open>decideFinalTypes\<close>. \<^verbatim>\<open>Array.prototype.sort\<close> is stable and the comparators are
  differences of integer keys, so each sort is the stable sort by that key, \<open>sort_key\<close>.
\<close>

definition decideFinalTypes ::
  "excel_data option \<Rightarrow> (string \<rightharpoonup> jsval) \<Rightarrow> (string \<rightharpoonup> bool) \<Rightarrow> options \<Rightarrow> string list" where
  "decideFinalTypes excelData textFeatures eligibility opts =
     (let maxT = maxTypesOf opts;
          qs = getQuestionTypes excelData;
          eligibleTypes = filter (\<lambda>t. truthy (eligibility (type_id t))) qs;
          eligibleTypes =
            (if textFeatures ''tone'' = Some (JStr ''evaluative'') then
               (let eligibleTypes = filter (\<lambda>t. \<not> startsWith (type_id t) ''R_FLOW_'') eligibleTypes;
                    inferTypes = filter (\<lambda>t. startsWith (type_id t) ''R_INFER_'') eligibleTypes
                in if length inferTypes > 1 then
                     (let bestInfer = hd (sort_key priority inferTypes)
                      in filter (\<lambda>t. \<not> startsWith (type_id t) ''R_INFER_''
                                      \<or> type_id t = type_id bestInfer) eligibleTypes)
                   else eligibleTypes)
             else eligibleTypes);
          basicTypes = [''R_MAIN'', ''R_DETAIL''];
          finalTypeSet = addBasicTypes eligibility basicTypes [];
          sortedTypes =
            sort_key priority (filter (\<lambda>t. type_id t \<notin> set finalTypeSet) eligibleTypes);
          finalTypeSet = addSortedTypes maxT sortedTypes finalTypeSet;
          result = finalTypeSet
      in sort_key (sortPriority (typeMap qs)) result)"

section \<open>Order within a list\<close>

text \<open>
  \<open>precedes x y xs\<close>: both are members of the list and \<open>x\<close> stands before the first
  \<open>y\<close>.
\<close>

definition precedes :: "'a \<Rightarrow> 'a \<Rightarrow> 'a list \<Rightarrow> bool" where
  "precedes x y xs = (x \<in> set (takeWhile (\<lambda>z. z \<noteq> y) xs) \<and> y \<in> set xs)"

section \<open>Auxiliary facts\<close>

lemma set_add_set: "set (set_add s x) = insert x (set s)"
  by (auto simp: set_add_def)

lemma set_add_distinct: "distinct s \<Longrightarrow> distinct (set_add s x)"
  by (auto simp: set_add_def)

lemma set_add_length: "length (set_add s x) \<le> Suc (length s)"
  by (auto simp: set_add_def)

lemma addSortedTypes_length:
  "int (length (addSortedTypes m ts s)) \<le> max m (int (length s))"
proof (induction ts arbitrary: s)
  case Nil
  then show ?case by simp
next
  case (Cons t ts)
  show ?case
  proof (cases "int (length s) \<ge> m")
    case True
    then show ?thesis by simp
  next
    case False
    have "int (length (set_add s (type_id t))) \<le> m"
      using False set_add_length [of s "type_id t"] by linarith
    with Cons.IH [of "set_add s (type_id t)"] False show ?thesis by simp
  qed
qed

lemma addSortedTypes_superset: "x \<in> set s \<Longrightarrow> x \<in> set (addSortedTypes m ts s)"
  by (induction ts arbitrary: s) (simp_all add: set_add_set)

lemma addSortedTypes_subset:
  "x \<in> set (addSortedTypes m ts s) \<Longrightarrow> x \<in> set s \<or> x \<in> type_id ` set ts"
proof (induction ts arbitrary: s)
  case Nil
  then show ?case by simp
next
  case (Cons t ts)
  show ?case
  proof (cases "int (length s) \<ge> m")
    case True
    with Cons.prems show ?thesis by simp
  next
    case False
    with Cons.prems have "x \<in> set (addSortedTypes m ts (set_add s (type_id t)))" by simp
    from Cons.IH [OF this] show ?thesis by (auto simp: set_add_set)
  qed
qed

lemma addSortedTypes_distinct: "distinct s \<Longrightarrow> distinct (addSortedTypes m ts s)"
  by (induction ts arbitrary: s) (simp_all add: set_add_distinct)

lemma addSortedTypes_nonpos: "m \<le> 0 \<Longrightarrow> addSortedTypes m ts s = s"
  by (cases ts) auto

lemma addBasicTypes_basic:
  "addBasicTypes el [''R_MAIN'', ''R_DETAIL''] [] = filter (\<lambda>b. truthy (el b)) [''R_MAIN'', ''R_DETAIL'']"
  by (simp add: set_add_def)

lemma typeMap_fold:
  "fold (\<lambda>t m. m(type_id t \<mapsto> t)) qs m0 a = None \<longleftrightarrow> (a \<notin> type_id ` set qs \<and> m0 a = None)"
  by (induction qs arbitrary: m0) auto

lemma typeMap_None: "typeMap qs a = None \<longleftrightarrow> a \<notin> type_id ` set qs"
  by (simp add: typeMap_def typeMap_fold)

lemma typeMap_fold_Some:
  "fold (\<lambda>t m. m(type_id t \<mapsto> t)) qs m0 a = Some t \<Longrightarrow> (t \<in> set qs \<and> type_id t = a) \<or> m0 a = Some t"
proof (induction qs arbitrary: m0)
  case Nil
  then show ?case by simp
next
  case (Cons q qs)
  from Cons.prems have "fold (\<lambda>t m. m(type_id t \<mapsto> t)) qs (m0(type_id q \<mapsto> q)) a = Some t"
    by (simp only: fold_simps o_apply)
  from Cons.IH [OF this]
  have "(t \<in> set qs \<and> type_id t = a) \<or> (m0(type_id q \<mapsto> q)) a = Some t" .
  then show ?case
    by (cases "a = type_id q") auto
qed

lemma typeMap_Some: "typeMap qs a = Some t \<Longrightarrow> t \<in> set qs \<and> type_id t = a"
  using typeMap_fold_Some [of qs Map.empty a t] by (simp add: typeMap_def)

lemma hd_sort_key_min:
  fixes f :: "'a \<Rightarrow> int"
  assumes "xs \<noteq> []"
  shows "hd (sort_key f xs) \<in> set xs \<and> (\<forall>u \<in> set xs. f (hd (sort_key f xs)) \<le> f u)"
proof -
  from assms have "sort_key f xs \<noteq> []"
    by (metis length_sort length_0_conv)
  then obtain y ys where ys: "sort_key f xs = y # ys"
    by (cases "sort_key f xs") auto
  have "sorted (map f (y # ys))"
    using sorted_sort_key [of f xs] by (simp only: ys)
  then have le: "\<forall>u \<in> set (y # ys). f y \<le> f u" by auto
  have "set (y # ys) = set xs"
    using set_sort [of f xs] by (simp only: ys)
  with le ys show ?thesis by auto
qed

text \<open>The shape of the result, with the candidates left after the tone policy.\<close>

lemma decideFinalTypes_shape:
  obtains els where
    "decideFinalTypes ed tf el opts =
       sort_key (sortPriority (typeMap (getQuestionTypes ed)))
         (addSortedTypes (maxTypesOf opts)
            (sort_key priority
               (filter (\<lambda>t. type_id t \<notin> set (filter (\<lambda>b. truthy (el b)) [''R_MAIN'', ''R_DETAIL''])) els))
            (filter (\<lambda>b. truthy (el b)) [''R_MAIN'', ''R_DETAIL'']))"
    and "set els \<subseteq> {t \<in> set (getQuestionTypes ed). truthy (el (type_id t))}"
    and "tf ''tone'' = Some (JStr ''evaluative'') \<Longrightarrow>
           \<forall>t \<in> set els. \<not> startsWith (type_id t) ''R_FLOW_''"
    and "tf ''tone'' = Some (JStr ''evaluative'') \<Longrightarrow>
           \<forall>t \<in> set els. startsWith (type_id t) ''R_INFER_'' \<longrightarrow>
             t \<in> set (filter (\<lambda>t. startsWith (type_id t) ''R_INFER_'')
                       (filter (\<lambda>t. \<not> startsWith (type_id t) ''R_FLOW_'')
                         (filter (\<lambda>t. truthy (el (type_id t))) (getQuestionTypes ed)))) \<and>
             type_id t = type_id (hd (sort_key priority
               (filter (\<lambda>t. startsWith (type_id t) ''R_INFER_'')
                 (filter (\<lambda>t. \<not> startsWith (type_id t) ''R_FLOW_'')
                   (filter (\<lambda>t. truthy (el (type_id t))) (getQuestionTypes ed))))))"
proof -
  define e0 where "e0 = filter (\<lambda>t. truthy (el (type_id t))) (getQuestionTypes ed)"
  define e1 where "e1 = filter (\<lambda>t. \<not> startsWith (type_id t) ''R_FLOW_'') e0"
  define inf where "inf = filter (\<lambda>t. startsWith (type_id t) ''R_INFER_'') e1"
  define els where "els =
    (if tf ''tone'' = Some (JStr ''evaluative'') then
       (if length inf > 1 then
          filter (\<lambda>t. \<not> startsWith (type_id t) ''R_INFER_'' \<or> type_id t = type_id (hd (sort_key priority inf))) e1
        else e1)
     else e0)"
  have a: "decideFinalTypes ed tf el opts =
       sort_key (sortPriority (typeMap (getQuestionTypes ed)))
         (addSortedTypes (maxTypesOf opts)
            (sort_key priority
               (filter (\<lambda>t. type_id t \<notin> set (filter (\<lambda>b. truthy (el b)) [''R_MAIN'', ''R_DETAIL''])) els))
            (filter (\<lambda>b. truthy (el b)) [''R_MAIN'', ''R_DETAIL'']))"
    unfolding decideFinalTypes_def Let_def addBasicTypes_basic els_def inf_def e1_def e0_def
    by simp
  have b: "set els \<subseteq> {t \<in> set (getQuestionTypes ed). truthy (el (type_id t))}"
    by (auto simp: els_def e1_def e0_def)
  have c: "\<forall>t \<in> set els. \<not> startsWith (type_id t) ''R_FLOW_''"
    if "tf ''tone'' = Some (JStr ''evaluative'')"
    using that by (auto simp: els_def e1_def)
  have d: "\<forall>t \<in> set els. startsWith (type_id t) ''R_INFER_'' \<longrightarrow>
             t \<in> set inf \<and> type_id t = type_id (hd (sort_key priority inf))"
    if ev: "tf ''tone'' = Some (JStr ''evaluative'')"
  proof (intro ballI impI)
    fix t assume t: "t \<in> set els" and p: "startsWith (type_id t) ''R_INFER_''"
    show "t \<in> set inf \<and> type_id t = type_id (hd (sort_key priority inf))"
    proof (cases "length inf > 1")
      case True
      with t p ev show ?thesis by (auto simp: els_def inf_def)
    next
      case False
      from t p ev False have tin: "t \<in> set inf" by (auto simp: els_def inf_def)
      with False have "inf = [t]"
        by (cases inf) auto
      then show ?thesis by simp
    qed
  qed
  show thesis
    by (rule that [OF a b c]) (use d in \<open>simp_all add: inf_def e1_def e0_def\<close>)
qed

lemma distinct_all_equal_length:
  "distinct xs \<Longrightarrow> \<forall>x \<in> set xs. x = c \<Longrightarrow> length xs \<le> 1"
  by (cases xs; cases "tl xs") auto

lemma decideFinalTypes_set:
  "set (decideFinalTypes ed tf el opts) \<subseteq>
     {b \<in> {''R_MAIN'', ''R_DETAIL''}. truthy (el b)} \<union>
     type_id ` {t \<in> set (getQuestionTypes ed). truthy (el (type_id t))}"
proof
  fix x assume x: "x \<in> set (decideFinalTypes ed tf el opts)"
  obtain els where
    shape: "decideFinalTypes ed tf el opts =
       sort_key (sortPriority (typeMap (getQuestionTypes ed)))
         (addSortedTypes (maxTypesOf opts)
            (sort_key priority
               (filter (\<lambda>t. type_id t \<notin> set (filter (\<lambda>b. truthy (el b)) [''R_MAIN'', ''R_DETAIL''])) els))
            (filter (\<lambda>b. truthy (el b)) [''R_MAIN'', ''R_DETAIL'']))"
    and sub: "set els \<subseteq> {t \<in> set (getQuestionTypes ed). truthy (el (type_id t))}"
    by (rule decideFinalTypes_shape)
  from x have "x \<in> set (addSortedTypes (maxTypesOf opts)
            (sort_key priority
               (filter (\<lambda>t. type_id t \<notin> set (filter (\<lambda>b. truthy (el b)) [''R_MAIN'', ''R_DETAIL''])) els))
            (filter (\<lambda>b. truthy (el b)) [''R_MAIN'', ''R_DETAIL'']))"
    by (simp add: shape)
  from addSortedTypes_subset [OF this]
  have "x \<in> set (filter (\<lambda>b. truthy (el b)) [''R_MAIN'', ''R_DETAIL'']) \<or> x \<in> type_id ` set els"
    by auto
  with sub
  show "x \<in> {b \<in> {''R_MAIN'', ''R_DETAIL''}. truthy (el b)} \<union>
     type_id ` {t \<in> set (getQuestionTypes ed). truthy (el (type_id t))}"
    by (auto split: if_splits)
qed

lemma decideFinalTypes_sorted_key:
  "sorted (map (sortPriority (typeMap (getQuestionTypes ed))) (decideFinalTypes ed tf el opts))"
  by (simp add: decideFinalTypes_def Let_def)

lemma startsWith_basic:
  "\<not> startsWith ''R_MAIN'' ''R_FLOW_''" "\<not> startsWith ''R_DETAIL'' ''R_FLOW_''"
  "\<not> startsWith ''R_MAIN'' ''R_INFER_''" "\<not> startsWith ''R_DETAIL'' ''R_INFER_''"
  by (simp_all add: startsWith_def)

lemma startsWith_infer_not_flow:
  assumes "startsWith s ''R_INFER_''"
  shows "\<not> startsWith s ''R_FLOW_''"
proof
  assume flow: "startsWith s ''R_FLOW_''"
  have "s ! 2 = take (length ''R_FLOW_'') s ! 2" by simp
  also have "\<dots> = ''R_FLOW_'' ! 2" using flow by (simp only: startsWith_def)
  finally have f: "s ! 2 = CHR ''F''" by simp
  have "s ! 2 = take (length ''R_INFER_'') s ! 2" by simp
  also have "\<dots> = ''R_INFER_'' ! 2" using assms by (simp only: startsWith_def)
  finally have "s ! 2 = CHR ''I''" by simp
  with f show False by simp
qed

lemma decideFinalTypes_distinct: "distinct (decideFinalTypes ed tf el opts)"
proof -
  obtain els where
    shape: "decideFinalTypes ed tf el opts =
       sort_key (sortPriority (typeMap (getQuestionTypes ed)))
         (addSortedTypes (maxTypesOf opts)
            (sort_key priority
               (filter (\<lambda>t. type_id t \<notin> set (filter (\<lambda>b. truthy (el b)) [''R_MAIN'', ''R_DETAIL''])) els))
            (filter (\<lambda>b. truthy (el b)) [''R_MAIN'', ''R_DETAIL'']))"
    by (rule decideFinalTypes_shape)
  have "distinct (filter (\<lambda>b. truthy (el b)) [''R_MAIN'', ''R_DETAIL''])"
    by simp
  then show ?thesis
    unfolding shape distinct_sort by (rule addSortedTypes_distinct)
qed

lemma decideFinalTypes_evaluative_origin:
  assumes ev: "tf ''tone'' = Some (JStr ''evaluative'')"
    and a: "a \<in> set (decideFinalTypes ed tf el opts)"
  shows "\<not> startsWith a ''R_FLOW_'' \<and>
    (startsWith a ''R_INFER_'' \<longrightarrow>
       filter (\<lambda>t. startsWith (type_id t) ''R_INFER_'')
         (filter (\<lambda>t. \<not> startsWith (type_id t) ''R_FLOW_'')
           (filter (\<lambda>t. truthy (el (type_id t))) (getQuestionTypes ed))) \<noteq> [] \<and>
       a = type_id (hd (sort_key priority
         (filter (\<lambda>t. startsWith (type_id t) ''R_INFER_'')
           (filter (\<lambda>t. \<not> startsWith (type_id t) ''R_FLOW_'')
             (filter (\<lambda>t. truthy (el (type_id t))) (getQuestionTypes ed)))))))"
proof -
  define inf where "inf = filter (\<lambda>t. startsWith (type_id t) ''R_INFER_'')
         (filter (\<lambda>t. \<not> startsWith (type_id t) ''R_FLOW_'')
           (filter (\<lambda>t. truthy (el (type_id t))) (getQuestionTypes ed)))"
  obtain els where
    shape: "decideFinalTypes ed tf el opts =
       sort_key (sortPriority (typeMap (getQuestionTypes ed)))
         (addSortedTypes (maxTypesOf opts)
            (sort_key priority
               (filter (\<lambda>t. type_id t \<notin> set (filter (\<lambda>b. truthy (el b)) [''R_MAIN'', ''R_DETAIL''])) els))
            (filter (\<lambda>b. truthy (el b)) [''R_MAIN'', ''R_DETAIL'']))"
    and noflow: "\<forall>t \<in> set els. \<not> startsWith (type_id t) ''R_FLOW_''"
    and infer: "\<forall>t \<in> set els. startsWith (type_id t) ''R_INFER_'' \<longrightarrow>
             t \<in> set inf \<and> type_id t = type_id (hd (sort_key priority inf))"
    unfolding inf_def using ev by (rule_tac decideFinalTypes_shape [of ed tf el opts]) blast
  from a have "a \<in> set (addSortedTypes (maxTypesOf opts)
            (sort_key priority
               (filter (\<lambda>t. type_id t \<notin> set (filter (\<lambda>b. truthy (el b)) [''R_MAIN'', ''R_DETAIL''])) els))
            (filter (\<lambda>b. truthy (el b)) [''R_MAIN'', ''R_DETAIL'']))"
    by (simp add: shape)
  from addSortedTypes_subset [OF this]
  have "a \<in> {''R_MAIN'', ''R_DETAIL''} \<or> a \<in> type_id ` set els"
    by (auto split: if_splits)
  then show ?thesis
  proof
    assume "a \<in> {''R_MAIN'', ''R_DETAIL''}"
    then show ?thesis using startsWith_basic by auto
  next
    assume "a \<in> type_id ` set els"
    then obtain t where t: "t \<in> set els" "a = type_id t" by auto
    with noflow infer show ?thesis
      unfolding inf_def [symmetric] by auto
  qed
qed

lemma calculateEligibility_fold:
  "fold (\<lambda>t eligibility.
             (let typeId = type_id t;
                  requirements = getTypeRequirements excelData typeId in
              if length requirements = 0 then setProperty eligibility typeId True
              else
                (let isEligible =
                       list_all (\<lambda>req. evaluateCondition c textFeatures (feature req)
                                         (operator req) (req_value req)) requirements
                 in setProperty eligibility typeId isEligible))) qs m k
   = (if k \<in> type_id ` set qs \<and> k \<noteq> ''__proto__''
      then Some (list_all (\<lambda>req. evaluateCondition c textFeatures (feature req)
                                   (operator req) (req_value req))
                   (getTypeRequirements excelData k))
      else m k)"
  by (induction qs arbitrary: m) (auto simp: Let_def setProperty_def)

text \<open>
  What \<^verbatim>\<open>calculateEligibility\<close> stores for an id other than \<^verbatim>\<open>__proto__\<close>, given the
  catalog and the rule table: the conjunction over the rows of the table that carry the
  id.
\<close>

lemma calculateEligibility_rows:
  assumes "t \<in> set qs" and "type_id t \<noteq> ''__proto__''"
  shows "calculateEligibility c (Some \<lparr>questionTypes = Some qs, typeRequirements = Some rs\<rparr>)
           textFeatures (type_id t) =
         Some (list_all (\<lambda>req. evaluateCondition c textFeatures (feature req)
                                 (operator req) (req_value req))
                 (filter (\<lambda>r. req_type_id r = type_id t) rs))"
  using assms unfolding calculateEligibility_def calculateEligibility_fold
  by (auto simp: getQuestionTypes_def getTypeRequirements_def)

text \<open>
  A feature that is no own key of the record, or is one with the value \<^verbatim>\<open>undefined\<close> or
  \<^verbatim>\<open>null\<close>, fails every condition, provided its name is not a member of
  \<^verbatim>\<open>Object.prototype\<close>.
\<close>

lemma evaluateCondition_missing_own:
  assumes "features f = None \<or> features f = Some JUndefined \<or> features f = Some JNull"
    and "objectPrototype f = None"
  shows "evaluateCondition c features f op v = False"
  using assms by (auto simp: evaluateCondition_def getProperty_def)

lemma sorted_precedes:
  fixes k :: "'a \<Rightarrow> int"
  assumes "sorted (map k xs)" and "a \<in> set xs" and "b \<in> set xs" and "k b < k a"
  shows "precedes b a xs"
  using assms
proof (induction xs)
  case Nil
  then show ?case by simp
next
  case (Cons x xs)
  show ?case
  proof (cases "x = a")
    case True
    from Cons.prems(1) have "\<forall>y \<in> set xs. k x \<le> k y" by simp
    with True Cons.prems(3,4) show ?thesis by auto
  next
    case False
    with Cons.prems(2) have a: "a \<in> set xs" by simp
    show ?thesis
    proof (cases "b = x")
      case True
      with False a show ?thesis by (simp add: precedes_def)
    next
      case nb: False
      with Cons.prems(3) have "b \<in> set xs" by simp
      from Cons.IH [OF _ a this Cons.prems(4)] Cons.prems(1)
      have "precedes b a xs" by simp
      with False show ?thesis by (simp add: precedes_def)
    qed
  qed
qed

lemma typeMap_distinct:
  assumes "distinct (map type_id qs)" and "t \<in> set qs"
  shows "typeMap qs (type_id t) = Some t"
proof (cases "typeMap qs (type_id t)")
  case None
  with assms(2) show ?thesis by (simp add: typeMap_None)
next
  case (Some t')
  from typeMap_Some [OF Some] have "t' \<in> set qs" and "type_id t' = type_id t" by simp_all
  with assms have "t' = t"
    by (meson distinct_map inj_onD)
  with Some show ?thesis by simp
qed

section \<open>The final type list: size and mandatory types\<close>

text \<open>
  Claim C1, as the code has it. The two basic types enter the set before the capacity is
  looked at, and the fill stops once the set has \<^verbatim>\<open>maxTypes\<close> members; so the returned
  list is never longer than the larger of the capacity (5 when \<^verbatim>\<open>maxTypes\<close> is missing) and
  the number of basic types marked eligible, which is at most two.
\<close>

theorem decideFinalTypes_length:
  "int (length (decideFinalTypes ed tf el opts)) \<le>
     max (maxTypesOf opts) (int (length (filter (\<lambda>b. truthy (el b)) [''R_MAIN'', ''R_DETAIL''])))"
proof -
  obtain els where
    shape: "decideFinalTypes ed tf el opts =
       sort_key (sortPriority (typeMap (getQuestionTypes ed)))
         (addSortedTypes (maxTypesOf opts)
            (sort_key priority
               (filter (\<lambda>t. type_id t \<notin> set (filter (\<lambda>b. truthy (el b)) [''R_MAIN'', ''R_DETAIL''])) els))
            (filter (\<lambda>b. truthy (el b)) [''R_MAIN'', ''R_DETAIL'']))"
    by (rule decideFinalTypes_shape)
  show ?thesis
    unfolding shape length_sort by (rule addSortedTypes_length)
qed

text \<open>With the default catalog, every type eligible and capacity 3, at most 3 ids come back.\<close>

theorem decideFinalTypes_length_witness:
  "int (length (decideFinalTypes None Map.empty (\<lambda>k. Some True) \<lparr>maxTypes = Some 3\<rparr>)) \<le> 3"
  using decideFinalTypes_length [of None Map.empty "\<lambda>k. Some True" "\<lparr>maxTypes = Some 3\<rparr>"]
  by (simp add: maxTypesOf_def truthy_def)

text \<open>
  The bound by the capacity alone fails: with capacity 1 and both basic types eligible the
  list has two members.
\<close>

theorem decideFinalTypes_length_counterexample:
  "\<not> int (length (decideFinalTypes None Map.empty
        [''R_MAIN'' \<mapsto> True, ''R_DETAIL'' \<mapsto> True] \<lparr>maxTypes = Some 1\<rparr>)) \<le> 1"
  by code_simp

text \<open>
  Claim C2. Each of the two basic type ids \<^verbatim>\<open>R_MAIN\<close> and \<^verbatim>\<open>R_DETAIL\<close> is in the returned
  list exactly when the eligibility map marks it eligible, whatever the catalog, the tone
  and the capacity are.
\<close>

theorem decideFinalTypes_mandatory:
  assumes "b = ''R_MAIN'' \<or> b = ''R_DETAIL''"
  shows "b \<in> set (decideFinalTypes ed tf el opts) \<longleftrightarrow> el b = Some True"
proof
  assume "b \<in> set (decideFinalTypes ed tf el opts)"
  with decideFinalTypes_set [of ed tf el opts]
  have "b \<in> {b \<in> {''R_MAIN'', ''R_DETAIL''}. truthy (el b)} \<union>
     type_id ` {t \<in> set (getQuestionTypes ed). truthy (el (type_id t))}"
    by blast
  then have "truthy (el b)" by auto
  then show "el b = Some True" by (simp add: truthy_def)
next
  assume "el b = Some True"
  with assms have "b \<in> set (filter (\<lambda>b. truthy (el b)) [''R_MAIN'', ''R_DETAIL''])"
    by (auto simp: truthy_def)
  then have "b \<in> set (addSortedTypes (maxTypesOf opts)
            (sort_key priority
               (filter (\<lambda>t. type_id t \<notin> set (filter (\<lambda>b. truthy (el b)) [''R_MAIN'', ''R_DETAIL''])) els))
            (filter (\<lambda>b. truthy (el b)) [''R_MAIN'', ''R_DETAIL'']))" for els
    by (rule addSortedTypes_superset)
  then show "b \<in> set (decideFinalTypes ed tf el opts)"
    by (rule_tac decideFinalTypes_shape [of ed tf el opts]) simp
qed

text \<open>
  Evaluative tone, capacity 1, every type of the default catalog eligible: \<^verbatim>\<open>R_DETAIL\<close>
  is still returned.
\<close>

theorem decideFinalTypes_mandatory_witness:
  "''R_DETAIL'' \<in> set (decideFinalTypes None [''tone'' \<mapsto> JStr ''evaluative'']
      (\<lambda>k. Some True) \<lparr>maxTypes = Some 1\<rparr>)"
  using decideFinalTypes_mandatory [of "''R_DETAIL''" None "[''tone'' \<mapsto> JStr ''evaluative'']"
      "\<lambda>k. Some True" "\<lparr>maxTypes = Some 1\<rparr>"]
  by simp

section \<open>The final type list: the evaluative tone\<close>

text \<open>
  Claim C3. When the \<^verbatim>\<open>tone\<close> attribute is \<^verbatim>\<open>"evaluative"\<close>, the returned list has no
  id with the prefix \<^verbatim>\<open>R_FLOW_\<close> and at most one id with the prefix \<^verbatim>\<open>R_INFER_\<close>; an
  inference id that is returned belongs to an eligible catalog entry whose priority number
  is the smallest among the eligible inference entries.
\<close>

theorem decideFinalTypes_evaluative:
  assumes ev: "tf ''tone'' = Some (JStr ''evaluative'')"
  shows "(\<forall>a \<in> set (decideFinalTypes ed tf el opts). \<not> startsWith a ''R_FLOW_'') \<and>
    length (filter (\<lambda>a. startsWith a ''R_INFER_'') (decideFinalTypes ed tf el opts)) \<le> 1 \<and>
    (\<forall>a \<in> set (decideFinalTypes ed tf el opts). startsWith a ''R_INFER_'' \<longrightarrow>
       (\<exists>t \<in> set (getQuestionTypes ed).
          type_id t = a \<and> truthy (el a) \<and>
          (\<forall>u \<in> set (getQuestionTypes ed).
             truthy (el (type_id u)) \<and> startsWith (type_id u) ''R_INFER_'' \<longrightarrow>
             priority t \<le> priority u)))"
proof (intro conjI ballI impI)
  fix a assume "a \<in> set (decideFinalTypes ed tf el opts)"
  from decideFinalTypes_evaluative_origin [of tf, OF ev this]
  show "\<not> startsWith a ''R_FLOW_''" by simp
next
  define inf where "inf = filter (\<lambda>t. startsWith (type_id t) ''R_INFER_'')
         (filter (\<lambda>t. \<not> startsWith (type_id t) ''R_FLOW_'')
           (filter (\<lambda>t. truthy (el (type_id t))) (getQuestionTypes ed)))"
  have "distinct (filter (\<lambda>a. startsWith a ''R_INFER_'') (decideFinalTypes ed tf el opts))"
    using decideFinalTypes_distinct by simp
  moreover have "\<forall>a \<in> set (filter (\<lambda>a. startsWith a ''R_INFER_'') (decideFinalTypes ed tf el opts)).
      a = type_id (hd (sort_key priority inf))"
  proof
    fix a assume "a \<in> set (filter (\<lambda>a. startsWith a ''R_INFER_'') (decideFinalTypes ed tf el opts))"
    then have "a \<in> set (decideFinalTypes ed tf el opts)" and "startsWith a ''R_INFER_''"
      by simp_all
    with decideFinalTypes_evaluative_origin [of tf, OF ev, of a ed el opts]
    show "a = type_id (hd (sort_key priority inf))"
      unfolding inf_def by blast
  qed
  ultimately show "length (filter (\<lambda>a. startsWith a ''R_INFER_'') (decideFinalTypes ed tf el opts)) \<le> 1"
    by (rule distinct_all_equal_length)
next
  fix a assume a: "a \<in> set (decideFinalTypes ed tf el opts)" and p: "startsWith a ''R_INFER_''"
  define inf where "inf = filter (\<lambda>t. startsWith (type_id t) ''R_INFER_'')
         (filter (\<lambda>t. \<not> startsWith (type_id t) ''R_FLOW_'')
           (filter (\<lambda>t. truthy (el (type_id t))) (getQuestionTypes ed)))"
  from decideFinalTypes_evaluative_origin [of tf, OF ev a] p
  have ne: "inf \<noteq> []" and eq: "a = type_id (hd (sort_key priority inf))"
    unfolding inf_def by simp_all
  from hd_sort_key_min [OF ne, of priority]
  have hin: "hd (sort_key priority inf) \<in> set inf"
    and hmin: "\<forall>u \<in> set inf. priority (hd (sort_key priority inf)) \<le> priority u"
    by simp_all
  have flow: "\<not> startsWith s ''R_FLOW_''" if "startsWith s ''R_INFER_''" for s
    using that by (rule startsWith_infer_not_flow)
  show "\<exists>t \<in> set (getQuestionTypes ed).
          type_id t = a \<and> truthy (el a) \<and>
          (\<forall>u \<in> set (getQuestionTypes ed).
             truthy (el (type_id u)) \<and> startsWith (type_id u) ''R_INFER_'' \<longrightarrow>
             priority t \<le> priority u)"
  proof (rule bexI [of _ "hd (sort_key priority inf)"], intro conjI ballI impI)
    show "type_id (hd (sort_key priority inf)) = a" using eq by simp
    show "truthy (el a)" using hin eq by (simp add: inf_def)
    fix u assume "u \<in> set (getQuestionTypes ed)"
      and "truthy (el (type_id u)) \<and> startsWith (type_id u) ''R_INFER_''"
    then have "u \<in> set inf" using flow by (simp add: inf_def)
    with hmin show "priority (hd (sort_key priority inf)) \<le> priority u" by simp
  next
    show "hd (sort_key priority inf) \<in> set (getQuestionTypes ed)"
      using hin by (simp add: inf_def)
  qed
qed

text \<open>
  The default catalog with every type eligible has four inference types; under the
  evaluative tone only \<^verbatim>\<open>R_INFER_REF\<close>, of priority 4, is returned, and no flow type.
\<close>

theorem decideFinalTypes_evaluative_witness:
  "[''tone'' \<mapsto> JStr ''evaluative''] ''tone'' = Some (JStr ''evaluative'') \<and>
   length (filter (\<lambda>a. startsWith a ''R_INFER_'')
     (decideFinalTypes None [''tone'' \<mapsto> JStr ''evaluative''] (\<lambda>k. Some True)
        \<lparr>maxTypes = Some 10\<rparr>)) \<le> 1 \<and>
   decideFinalTypes None [''tone'' \<mapsto> JStr ''evaluative''] (\<lambda>k. Some True)
        \<lparr>maxTypes = Some 10\<rparr> =
     [''R_MAIN'', ''R_DETAIL'', ''R_DETAIL_SPECIFIC'', ''R_INFER_REF'', ''R_GRAMMAR_USAGE'',
      ''R_GRAMMAR_ERROR'', ''R_VOCAB_SYN'', ''R_VOCAB_ANT'', ''R_VOCAB_DEF'', ''R_VOCAB_CONTEXT'']"
proof -
  have h: "[''tone'' \<mapsto> JStr ''evaluative''] ''tone'' = Some (JStr ''evaluative'')"
    by simp
  have r: "decideFinalTypes None [''tone'' \<mapsto> JStr ''evaluative''] (\<lambda>k. Some True)
        \<lparr>maxTypes = Some 10\<rparr> =
     [''R_MAIN'', ''R_DETAIL'', ''R_DETAIL_SPECIFIC'', ''R_INFER_REF'', ''R_GRAMMAR_USAGE'',
      ''R_GRAMMAR_ERROR'', ''R_VOCAB_SYN'', ''R_VOCAB_ANT'', ''R_VOCAB_DEF'', ''R_VOCAB_CONTEXT'']"
    by code_simp
  from decideFinalTypes_evaluative [of "[''tone'' \<mapsto> JStr ''evaluative'']", OF h,
      of None "\<lambda>k. Some True" "\<lparr>maxTypes = Some 10\<rparr>"]
  have "length (filter (\<lambda>a. startsWith a ''R_INFER_'')
     (decideFinalTypes None [''tone'' \<mapsto> JStr ''evaluative''] (\<lambda>k. Some True)
        \<lparr>maxTypes = Some 10\<rparr>)) \<le> 1"
    by blast
  with h r show ?thesis by blast
qed

section \<open>Eligibility and the condition evaluator\<close>

text \<open>
  Claim C4, on the catalog id \<^verbatim>\<open>__proto__\<close>. The claim asks that every catalog id be mapped
  to the conjunction of its requirements. A type with the id \<^verbatim>\<open>__proto__\<close> and one
  requirement that the record does not meet should be mapped to \<^verbatim>\<open>false\<close>; the write
  \<^verbatim>\<open>eligibility[typeId] = isEligible\<close> stores nothing, and the returned object has no
  entry for the id.
\<close>

theorem calculateEligibility_proto:
  "calculateEligibility nan_conv
     (Some \<lparr>questionTypes = Some [\<lparr>type_id = ''__proto__'', priority = 1, category = ''OTHER''\<rparr>],
            typeRequirements = Some
              [\<lparr>req_type_id = ''__proto__'', feature = ''has_example'',
                 operator = ''='', req_value = JBool True\<rparr>]\<rparr>)
     [''has_example'' \<mapsto> JBool False] ''__proto__'' = None \<and>
   list_all (\<lambda>req. evaluateCondition nan_conv [''has_example'' \<mapsto> JBool False]
                     (feature req) (operator req) (req_value req))
     (getTypeRequirements
        (Some \<lparr>questionTypes = Some [\<lparr>type_id = ''__proto__'', priority = 1, category = ''OTHER''\<rparr>],
               typeRequirements = Some
                 [\<lparr>req_type_id = ''__proto__'', feature = ''has_example'',
                    operator = ''='', req_value = JBool True\<rparr>]\<rparr>)
        ''__proto__'') = False"
  by code_simp

text \<open>
  Claim C5, on feature names that \<^verbatim>\<open>Object.prototype\<close> has. The claim asks that a
  condition on a feature absent from the record be \<^verbatim>\<open>false\<close> for every operator. On the
  empty record the features \<^verbatim>\<open>constructor\<close> and \<^verbatim>\<open>toString\<close> are absent, yet
  \<^verbatim>\<open>features[feature]\<close> reads a built-in function, which passes the guard: the condition
  holds under \<^verbatim>\<open>!=\<close> and under an operator that does not exist.
\<close>

theorem evaluateCondition_inherited:
  "evaluateCondition nan_conv Map.empty ''constructor'' ''!='' (JStr ''factual'') = True \<and>
   evaluateCondition nan_conv Map.empty ''toString'' ''~'' (JNum (Fin 1)) = True"
  by code_simp

section \<open>The capacity option\<close>

text \<open>
  Claim C6, as the code has it. A missing \<^verbatim>\<open>maxTypes\<close> is replaced by 5. A capacity
  that is zero or negative is not replaced: the fill of step 4 stops before its first
  candidate, and the list is made of the basic types marked eligible and nothing else.
\<close>

theorem decideFinalTypes_capacity:
  "decideFinalTypes ed tf el \<lparr>maxTypes = None\<rparr> = decideFinalTypes ed tf el \<lparr>maxTypes = Some 5\<rparr> \<and>
   (n \<le> 0 \<longrightarrow>
      decideFinalTypes ed tf el \<lparr>maxTypes = Some n\<rparr> =
        sort_key (sortPriority (typeMap (getQuestionTypes ed)))
          (filter (\<lambda>b. truthy (el b)) [''R_MAIN'', ''R_DETAIL'']))"
proof
  show "decideFinalTypes ed tf el \<lparr>maxTypes = None\<rparr> = decideFinalTypes ed tf el \<lparr>maxTypes = Some 5\<rparr>"
    by (simp add: decideFinalTypes_def maxTypesOf_def)
next
  show "n \<le> 0 \<longrightarrow>
      decideFinalTypes ed tf el \<lparr>maxTypes = Some n\<rparr> =
        sort_key (sortPriority (typeMap (getQuestionTypes ed)))
          (filter (\<lambda>b. truthy (el b)) [''R_MAIN'', ''R_DETAIL''])"
  proof
    assume n: "n \<le> 0"
    obtain els where
      shape: "decideFinalTypes ed tf el \<lparr>maxTypes = Some n\<rparr> =
       sort_key (sortPriority (typeMap (getQuestionTypes ed)))
         (addSortedTypes (maxTypesOf \<lparr>maxTypes = Some n\<rparr>)
            (sort_key priority
               (filter (\<lambda>t. type_id t \<notin> set (filter (\<lambda>b. truthy (el b)) [''R_MAIN'', ''R_DETAIL''])) els))
            (filter (\<lambda>b. truthy (el b)) [''R_MAIN'', ''R_DETAIL'']))"
      by (rule decideFinalTypes_shape)
    have "maxTypesOf \<lparr>maxTypes = Some n\<rparr> \<le> 0"
      using n by (simp add: maxTypesOf_def)
    then show "decideFinalTypes ed tf el \<lparr>maxTypes = Some n\<rparr> =
        sort_key (sortPriority (typeMap (getQuestionTypes ed)))
          (filter (\<lambda>b. truthy (el b)) [''R_MAIN'', ''R_DETAIL''])"
      unfolding shape by (simp only: addSortedTypes_nonpos)
  qed
qed

text \<open>
  Capacity \<open>-1\<close>, with \<^verbatim>\<open>R_DETAIL\<close> and \<^verbatim>\<open>R_VOCAB_SYN\<close> eligible: only \<^verbatim>\<open>R_DETAIL\<close>
  is returned.
\<close>

theorem decideFinalTypes_capacity_witness:
  "decideFinalTypes None Map.empty [''R_DETAIL'' \<mapsto> True, ''R_VOCAB_SYN'' \<mapsto> True]
     \<lparr>maxTypes = Some (- 1)\<rparr> = [''R_DETAIL'']"
proof -
  have "sort_key (sortPriority (typeMap (getQuestionTypes None)))
          (filter (\<lambda>b. truthy ([''R_DETAIL'' \<mapsto> True, ''R_VOCAB_SYN'' \<mapsto> True] b))
             [''R_MAIN'', ''R_DETAIL'']) = [''R_DETAIL'']"
    by (simp add: truthy_def)
  with decideFinalTypes_capacity [of None Map.empty
      "[''R_DETAIL'' \<mapsto> True, ''R_VOCAB_SYN'' \<mapsto> True]" "- 1"]
  show ?thesis by simp
qed

text \<open>
  Capacity 0 is not capacity 5: with \<^verbatim>\<open>R_VOCAB_SYN\<close> alone eligible the first gives the
  empty list and the second gives that type.
\<close>

theorem decideFinalTypes_capacity_counterexample:
  "decideFinalTypes None Map.empty [''R_VOCAB_SYN'' \<mapsto> True] \<lparr>maxTypes = Some 0\<rparr> \<noteq>
   decideFinalTypes None Map.empty [''R_VOCAB_SYN'' \<mapsto> True] \<lparr>maxTypes = Some 5\<rparr>"
  by code_simp

section \<open>Unknown operators, and membership\<close>

text \<open>
  Claim C7. When the feature is present and neither \<^verbatim>\<open>undefined\<close> nor \<^verbatim>\<open>null\<close>, a
  condition whose operator is none of \<^verbatim>\<open>=\<close>, \<^verbatim>\<open>==\<close>, \<^verbatim>\<open>!=\<close>, \<^verbatim>\<open><>\<close>, \<^verbatim>\<open>>\<close>, \<^verbatim>\<open><\<close>,
  \<^verbatim>\<open>>=\<close>, \<^verbatim>\<open><=\<close>, \<^verbatim>\<open>in\<close>, \<^verbatim>\<open>not_in\<close> evaluates to \<^verbatim>\<open>true\<close>.
\<close>

theorem evaluateCondition_unknown_operator:
  assumes "features f = Some x" and "x \<noteq> JUndefined" and "x \<noteq> JNull"
    and "op \<notin> set [''='', ''=='', ''!='', ''<>'', ''>'', ''<'', ''>='', ''<='', ''in'', ''not_in'']"
  shows "evaluateCondition c features f op v = True"
  using assms by (simp add: evaluateCondition_def getProperty_def Let_def)

text \<open>
  The mistyped operator \<^verbatim>\<open>=>\<close> lets a passage with one explicit fact pass a rule that
  asks for two.
\<close>

theorem evaluateCondition_unknown_operator_witness:
  "evaluateCondition nan_conv [''explicit_facts'' \<mapsto> JNum (Fin 1)] ''explicit_facts'' ''=>''
     (JNum (Fin 2)) = True"
  using evaluateCondition_unknown_operator [of "[''explicit_facts'' \<mapsto> JNum (Fin 1)]"
      "''explicit_facts''" "JNum (Fin 1)" "''=>''" nan_conv "JNum (Fin 2)"]
  by simp

text \<open>
  Claim C8. When the feature is present and neither \<^verbatim>\<open>undefined\<close> nor \<^verbatim>\<open>null\<close>, the
  operator \<^verbatim>\<open>in\<close> gives the negation of what \<^verbatim>\<open>not_in\<close> gives on the same feature and
  rule value.
\<close>

theorem evaluateCondition_in_not_in:
  assumes "features f = Some x" and "x \<noteq> JUndefined" and "x \<noteq> JNull"
  shows "evaluateCondition c features f ''in'' v = (\<not> evaluateCondition c features f ''not_in'' v)"
  using assms by (simp add: evaluateCondition_def getProperty_def Let_def)

text \<open>
  The tone \<^verbatim>\<open>factual\<close> against the list \<^verbatim>\<open>"narrative, factual"\<close>.
\<close>

theorem evaluateCondition_in_not_in_witness:
  "evaluateCondition nan_conv [''tone'' \<mapsto> JStr ''factual''] ''tone'' ''in''
     (JStr ''narrative, factual'') = True \<and>
   evaluateCondition nan_conv [''tone'' \<mapsto> JStr ''factual''] ''tone'' ''not_in''
     (JStr ''narrative, factual'') = False"
proof -
  have i: "evaluateCondition nan_conv [''tone'' \<mapsto> JStr ''factual''] ''tone'' ''in''
     (JStr ''narrative, factual'') = True"
    by code_simp
  have h: "[''tone'' \<mapsto> JStr ''factual''] ''tone'' = Some (JStr ''factual'')" by simp
  from evaluateCondition_in_not_in [of "[''tone'' \<mapsto> JStr ''factual'']" "''tone''"
      "JStr ''factual''" nan_conv "JStr ''narrative, factual''", OF h] i
  show ?thesis by simp
qed

section \<open>The final ordering\<close>

text \<open>
  Claim C9, as the code has it. For a catalog in which no entry has priority 0, the
  returned list is sorted ascending by the priority of each id's catalog entry, an id
  without a catalog entry counting as 99. Such an id therefore stands after every
  returned id of priority below 99; it need not be last.
\<close>

theorem decideFinalTypes_sorted:
  assumes "\<forall>t \<in> set (getQuestionTypes ed). priority t \<noteq> 0"
  shows "sorted (map (\<lambda>a. case typeMap (getQuestionTypes ed) a of
                            None \<Rightarrow> 99
                          | Some t \<Rightarrow> priority t)
                   (decideFinalTypes ed tf el opts)) \<and>
         (\<forall>a. typeMap (getQuestionTypes ed) a = None \<longleftrightarrow>
               a \<notin> type_id ` set (getQuestionTypes ed))"
proof
  have "sortPriority (typeMap (getQuestionTypes ed)) a =
      (case typeMap (getQuestionTypes ed) a of None \<Rightarrow> 99 | Some t \<Rightarrow> priority t)" for a
  proof (cases "typeMap (getQuestionTypes ed) a")
    case None
    then show ?thesis by (simp add: sortPriority_def)
  next
    case (Some t)
    with typeMap_Some [OF Some] assms have "priority t \<noteq> 0" by blast
    with Some show ?thesis by (simp add: sortPriority_def)
  qed
  then have "sortPriority (typeMap (getQuestionTypes ed)) =
      (\<lambda>a. case typeMap (getQuestionTypes ed) a of None \<Rightarrow> 99 | Some t \<Rightarrow> priority t)"
    by (rule ext)
  with decideFinalTypes_sorted_key [of ed tf el opts]
  show "sorted (map (\<lambda>a. case typeMap (getQuestionTypes ed) a of
                            None \<Rightarrow> 99
                          | Some t \<Rightarrow> priority t)
                   (decideFinalTypes ed tf el opts))"
    by simp
next
  show "\<forall>a. typeMap (getQuestionTypes ed) a = None \<longleftrightarrow>
               a \<notin> type_id ` set (getQuestionTypes ed)"
    by (simp add: typeMap_None)
qed

text \<open>
  A catalog of two types with priorities 100 and 3, and the two basic types, which it
  does not list, eligible: the keys of the returned list are 3, 99, 99, 100.
\<close>

theorem decideFinalTypes_sorted_witness:
  "sorted (map (\<lambda>a. case typeMap (getQuestionTypes (Some \<lparr>questionTypes = Some
                  [\<lparr>type_id = ''R_X'', priority = 100, category = ''OTHER''\<rparr>,
                   \<lparr>type_id = ''R_Y'', priority = 3, category = ''OTHER''\<rparr>],
                typeRequirements = None\<rparr>)) a of
                            None \<Rightarrow> 99
                          | Some t \<Rightarrow> priority t)
     (decideFinalTypes
        (Some \<lparr>questionTypes = Some
                  [\<lparr>type_id = ''R_X'', priority = 100, category = ''OTHER''\<rparr>,
                   \<lparr>type_id = ''R_Y'', priority = 3, category = ''OTHER''\<rparr>],
                typeRequirements = None\<rparr>)
        Map.empty (\<lambda>k. Some True) \<lparr>maxTypes = None\<rparr>)) \<and>
   decideFinalTypes
        (Some \<lparr>questionTypes = Some
                  [\<lparr>type_id = ''R_X'', priority = 100, category = ''OTHER''\<rparr>,
                   \<lparr>type_id = ''R_Y'', priority = 3, category = ''OTHER''\<rparr>],
                typeRequirements = None\<rparr>)
        Map.empty (\<lambda>k. Some True) \<lparr>maxTypes = None\<rparr> =
     [''R_Y'', ''R_MAIN'', ''R_DETAIL'', ''R_X'']"
proof -
  have h: "\<forall>t \<in> set (getQuestionTypes (Some \<lparr>questionTypes = Some
                  [\<lparr>type_id = ''R_X'', priority = 100, category = ''OTHER''\<rparr>,
                   \<lparr>type_id = ''R_Y'', priority = 3, category = ''OTHER''\<rparr>],
                typeRequirements = None\<rparr>)). priority t \<noteq> 0"
    by (simp add: getQuestionTypes_def)
  have r: "decideFinalTypes
        (Some \<lparr>questionTypes = Some
                  [\<lparr>type_id = ''R_X'', priority = 100, category = ''OTHER''\<rparr>,
                   \<lparr>type_id = ''R_Y'', priority = 3, category = ''OTHER''\<rparr>],
                typeRequirements = None\<rparr>)
        Map.empty (\<lambda>k. Some True) \<lparr>maxTypes = None\<rparr> =
     [''R_Y'', ''R_MAIN'', ''R_DETAIL'', ''R_X'']"
    by code_simp
  from decideFinalTypes_sorted [OF h, of Map.empty "\<lambda>k. Some True" "\<lparr>maxTypes = None\<rparr>"] r
  show ?thesis by blast
qed

text \<open>
  An id without a catalog entry does not always come last: \<^verbatim>\<open>R_MAIN\<close>, absent from the
  catalog, precedes a type of priority 100. Nor is the list always ascending in the
  catalog priority: a type of priority 0 follows a type of priority 1.
\<close>

theorem decideFinalTypes_sorted_counterexample:
  "decideFinalTypes
     (Some \<lparr>questionTypes = Some [\<lparr>type_id = ''R_X'', priority = 100, category = ''OTHER''\<rparr>],
            typeRequirements = None\<rparr>)
     Map.empty [''R_X'' \<mapsto> True, ''R_MAIN'' \<mapsto> True] \<lparr>maxTypes = None\<rparr> =
     [''R_MAIN'', ''R_X''] \<and>
   ''R_MAIN'' \<notin> type_id ` set (getQuestionTypes
     (Some \<lparr>questionTypes = Some [\<lparr>type_id = ''R_X'', priority = 100, category = ''OTHER''\<rparr>],
            typeRequirements = None\<rparr>)) \<and>
   decideFinalTypes
     (Some \<lparr>questionTypes = Some [\<lparr>type_id = ''R_A'', priority = 0, category = ''OTHER''\<rparr>,
                                  \<lparr>type_id = ''R_B'', priority = 1, category = ''OTHER''\<rparr>],
            typeRequirements = None\<rparr>)
     Map.empty [''R_A'' \<mapsto> True, ''R_B'' \<mapsto> True] \<lparr>maxTypes = None\<rparr> =
     [''R_B'', ''R_A'']"
  by code_simp

text \<open>
  Claim C10, as the code has it. In the final sort an id whose catalog entry has priority
  0 is placed as if the priority were 99, like an id without a catalog entry: in the
  returned list it stands after every type whose priority is not 0 and below 99, and
  before every type whose priority is above 99. So it comes after, not before, the types
  of priority 1 to 98, but it need not be last. The ids of the catalog are taken to be
  unique, as the data model has them.
\<close>

theorem decideFinalTypes_priority_zero:
  assumes "distinct (map type_id (getQuestionTypes ed))"
    and "t \<in> set (getQuestionTypes ed)" and "priority t = 0"
    and "u \<in> set (getQuestionTypes ed)" and "priority u \<noteq> 0"
    and "type_id t \<in> set (decideFinalTypes ed tf el opts)"
    and "type_id u \<in> set (decideFinalTypes ed tf el opts)"
  shows "(priority u < 99 \<longrightarrow>
            precedes (type_id u) (type_id t) (decideFinalTypes ed tf el opts)) \<and>
         (99 < priority u \<longrightarrow>
            precedes (type_id t) (type_id u) (decideFinalTypes ed tf el opts)) \<and>
         (\<forall>a \<in> set (decideFinalTypes ed tf el opts).
            a \<notin> type_id ` set (getQuestionTypes ed) \<longrightarrow>
              (priority u < 99 \<longrightarrow>
                 precedes (type_id u) a (decideFinalTypes ed tf el opts)) \<and>
              (99 < priority u \<longrightarrow>
                 precedes a (type_id u) (decideFinalTypes ed tf el opts)))"
proof -
  let ?k = "sortPriority (typeMap (getQuestionTypes ed))"
  let ?R = "decideFinalTypes ed tf el opts"
  have srt: "sorted (map ?k ?R)" by (rule decideFinalTypes_sorted_key)
  have kt: "?k (type_id t) = 99"
    using typeMap_distinct [OF assms(1,2)] assms(3) by (simp add: sortPriority_def)
  have ku: "?k (type_id u) = priority u"
    using typeMap_distinct [OF assms(1,4)] assms(5) by (simp add: sortPriority_def)
  have ka: "?k a = 99" if "a \<notin> type_id ` set (getQuestionTypes ed)" for a
    using that by (simp add: sortPriority_def typeMap_None [symmetric])
  show ?thesis
  proof (intro conjI impI ballI)
    assume "priority u < 99"
    with kt ku have "?k (type_id u) < ?k (type_id t)" by simp
    from sorted_precedes [OF srt assms(6,7) this]
    show "precedes (type_id u) (type_id t) ?R" .
  next
    assume "99 < priority u"
    with kt ku have "?k (type_id t) < ?k (type_id u)" by simp
    from sorted_precedes [OF srt assms(7,6) this]
    show "precedes (type_id t) (type_id u) ?R" .
  next
    fix a assume a: "a \<in> set ?R" and na: "a \<notin> type_id ` set (getQuestionTypes ed)"
      and "priority u < 99"
    with ka [OF na] ku have "?k (type_id u) < ?k a" by simp
    from sorted_precedes [OF srt a assms(7) this]
    show "precedes (type_id u) a ?R" .
  next
    fix a assume a: "a \<in> set ?R" and na: "a \<notin> type_id ` set (getQuestionTypes ed)"
      and "99 < priority u"
    with ka [OF na] ku have "?k a < ?k (type_id u)" by simp
    from sorted_precedes [OF srt assms(7) a this]
    show "precedes a (type_id u) ?R" .
  qed
qed

text \<open>
  Three types of priorities 0, 5 and 100, all eligible. The fill takes them in that
  order; the final sort moves the type of priority 0 behind the type of priority 5 and
  leaves it before the type of priority 100.
\<close>

theorem decideFinalTypes_priority_zero_witness:
  "precedes ''R_B'' ''R_ZERO''
     (decideFinalTypes
        (Some \<lparr>questionTypes = Some
                  [\<lparr>type_id = ''R_ZERO'', priority = 0, category = ''OTHER''\<rparr>,
                   \<lparr>type_id = ''R_B'', priority = 5, category = ''OTHER''\<rparr>,
                   \<lparr>type_id = ''R_X'', priority = 100, category = ''OTHER''\<rparr>],
                typeRequirements = None\<rparr>)
        Map.empty [''R_ZERO'' \<mapsto> True, ''R_B'' \<mapsto> True, ''R_X'' \<mapsto> True]
        \<lparr>maxTypes = None\<rparr>) \<and>
   precedes ''R_ZERO'' ''R_X''
     (decideFinalTypes
        (Some \<lparr>questionTypes = Some
                  [\<lparr>type_id = ''R_ZERO'', priority = 0, category = ''OTHER''\<rparr>,
                   \<lparr>type_id = ''R_B'', priority = 5, category = ''OTHER''\<rparr>,
                   \<lparr>type_id = ''R_X'', priority = 100, category = ''OTHER''\<rparr>],
                typeRequirements = None\<rparr>)
        Map.empty [''R_ZERO'' \<mapsto> True, ''R_B'' \<mapsto> True, ''R_X'' \<mapsto> True]
        \<lparr>maxTypes = None\<rparr>) \<and>
   decideFinalTypes
        (Some \<lparr>questionTypes = Some
                  [\<lparr>type_id = ''R_ZERO'', priority = 0, category = ''OTHER''\<rparr>,
                   \<lparr>type_id = ''R_B'', priority = 5, category = ''OTHER''\<rparr>,
                   \<lparr>type_id = ''R_X'', priority = 100, category = ''OTHER''\<rparr>],
                typeRequirements = None\<rparr>)
        Map.empty [''R_ZERO'' \<mapsto> True, ''R_B'' \<mapsto> True, ''R_X'' \<mapsto> True]
        \<lparr>maxTypes = None\<rparr> = [''R_B'', ''R_ZERO'', ''R_X'']"
proof -
  let ?z = "\<lparr>type_id = ''R_ZERO'', priority = 0, category = ''OTHER''\<rparr>"
  let ?b = "\<lparr>type_id = ''R_B'', priority = 5, category = ''OTHER''\<rparr>"
  let ?x = "\<lparr>type_id = ''R_X'', priority = 100, category = ''OTHER''\<rparr>"
  let ?ed = "Some \<lparr>questionTypes = Some [?z, ?b, ?x], typeRequirements = None\<rparr>"
  let ?el = "[''R_ZERO'' \<mapsto> True, ''R_B'' \<mapsto> True, ''R_X'' \<mapsto> True]"
  let ?R = "decideFinalTypes ?ed Map.empty ?el \<lparr>maxTypes = None\<rparr>"
  have qs: "getQuestionTypes ?ed = [?z, ?b, ?x]" by (simp add: getQuestionTypes_def)
  have r: "?R = [''R_B'', ''R_ZERO'', ''R_X'']" by code_simp
  have d: "distinct (map type_id (getQuestionTypes ?ed))" by (simp add: qs)
  have z: "?z \<in> set (getQuestionTypes ?ed)" "priority ?z = 0" by (simp_all add: qs)
  have b: "?b \<in> set (getQuestionTypes ?ed)" "priority ?b \<noteq> 0" "priority ?b < 99"
    by (simp_all add: qs)
  have x: "?x \<in> set (getQuestionTypes ?ed)" "priority ?x \<noteq> 0" "99 < priority ?x"
    by (simp_all add: qs)
  have zin: "type_id ?z \<in> set ?R" and bin: "type_id ?b \<in> set ?R" and xin: "type_id ?x \<in> set ?R"
    by (simp_all add: r)
  from decideFinalTypes_priority_zero [OF d z b(1,2) zin bin] b(3)
  have p1: "precedes ''R_B'' ''R_ZERO'' ?R" by simp
  from decideFinalTypes_priority_zero [OF d z x(1,2) zin xin] x(3)
  have p2: "precedes ''R_ZERO'' ''R_X'' ?R" by simp
  from p1 p2 r show ?thesis by blast
qed

text \<open>
  A type of priority 0 does not always come last: beside a type of priority 100 it is
  returned first.
\<close>

theorem decideFinalTypes_priority_zero_counterexample:
  "decideFinalTypes
     (Some \<lparr>questionTypes = Some [\<lparr>type_id = ''R_A'', priority = 0, category = ''OTHER''\<rparr>,
                                  \<lparr>type_id = ''R_X'', priority = 100, category = ''OTHER''\<rparr>],
            typeRequirements = None\<rparr>)
     Map.empty [''R_A'' \<mapsto> True, ''R_X'' \<mapsto> True] \<lparr>maxTypes = None\<rparr> =
     [''R_A'', ''R_X'']"
  by code_simp

end
